theory Spec2Isabelle
  imports Main "HOL-Library.Char_ord" "HOL-Library.List_Lexorder"
begin

section \<open>SQL values, rows and three-valued conditions\<close>

text \<open>
  The trigger procedures of \<^verbatim>\<open>maasserver/triggers.py\<close> are PL/pgSQL text.  Their
  meaning is given over column values that may be NULL, rows that are read by column
  name, and conditions that are true, false or unknown (\<open>None\<close>).
\<close>

datatype sqlval = Null | IntV int | TextV string | BoolV bool

type_synonym row = "(string \<times> sqlval) list"

definition col :: "string \<Rightarrow> row \<Rightarrow> sqlval" where
  "col c r = (case map_of r c of None \<Rightarrow> Null | Some v \<Rightarrow> v)"

definition project :: "string list \<Rightarrow> row \<Rightarrow> row" where
  "project cs r = map (\<lambda>c. (c, col c r)) cs"

definition sql_eq :: "sqlval \<Rightarrow> sqlval \<Rightarrow> bool option" where
  "sql_eq a b = (if a = Null \<or> b = Null then None else Some (a = b))"

definition sql_ne :: "sqlval \<Rightarrow> sqlval \<Rightarrow> bool option" where
  "sql_ne a b = (if a = Null \<or> b = Null then None else Some (a \<noteq> b))"

fun sql_and :: "bool option \<Rightarrow> bool option \<Rightarrow> bool option" where
  "sql_and (Some False) q = Some False"
| "sql_and p (Some False) = Some False"
| "sql_and (Some True) (Some True) = Some True"
| "sql_and p q = None"

fun sql_or :: "bool option \<Rightarrow> bool option \<Rightarrow> bool option" where
  "sql_or (Some True) q = Some True"
| "sql_or p (Some True) = Some True"
| "sql_or (Some False) (Some False) = Some False"
| "sql_or p q = None"

text \<open>A WHERE clause keeps a row, and an IF takes its THEN branch, only on true.\<close>

definition is_true :: "bool option \<Rightarrow> bool" where
  "is_true p = (p = Some True)"

fun digits_of_nat :: "nat \<Rightarrow> string" where
  "digits_of_nat n =
     (if n < 10 then [''0123456789'' ! n]
      else digits_of_nat (n div 10) @ [''0123456789'' ! (n mod 10)])"

declare digits_of_nat.simps [simp del]

definition text_of_int :: "int \<Rightarrow> string" where
  "text_of_int i = (if i < 0 then CHR ''-'' # digits_of_nat (nat (- i)) else digits_of_nat (nat i))"

text \<open>\<^verbatim>\<open>CAST(v AS text)\<close>; the cast of NULL is NULL (\<open>None\<close>).\<close>

fun cast_text :: "sqlval \<Rightarrow> string option" where
  "cast_text Null = None"
| "cast_text (IntV i) = Some (text_of_int i)"
| "cast_text (TextV s) = Some s"
| "cast_text (BoolV b) = Some (if b then ''true'' else ''false'')"

section \<open>Notifications and the tables the procedures read\<close>

text \<open>
  A notification is one call \<^verbatim>\<open>pg_notify(channel, payload)\<close>: the channel and the
  payload text, \<open>None\<close> when the payload argument is NULL.
\<close>

type_synonym notification = "string \<times> string option"

definition pg_notify :: "string \<Rightarrow> sqlval \<Rightarrow> notification" where
  "pg_notify channel v = (channel, cast_text v)"

record database =
  maasserver_node :: "row list"
  maasserver_node_tags :: "row list"
  maasserver_macaddress :: "row list"
  maasserver_blockdevice :: "row list"
  maasserver_partitiontable :: "row list"
  maasserver_partition :: "row list"
  maasserver_filesystem :: "row list"

text \<open>
  A column of the row images, as the templates receive it in text:
  \<^verbatim>\<open>'NEW.node_id'\<close> is \<open>NEW ''node_id''\<close>.  An image the operation does not have
  (OLD on insert, NEW on delete) is the empty row, all of whose columns are NULL.
\<close>

datatype colref = NEW string | OLD string

fun ref :: "colref \<Rightarrow> row \<Rightarrow> row \<Rightarrow> sqlval" where
  "ref (NEW c) old new = col c new"
| "ref (OLD c) old new = col c old"

text \<open>
  \<^verbatim>\<open>SELECT ... INTO node\<close> without STRICT: the first row of the result, and a record of
  NULLs when the result is empty.  Results are enumerated in the order of the FROM list,
  leftmost table outermost.
\<close>

fun select_into :: "row list \<Rightarrow> row" where
  "select_into [] = []"
| "select_into (r # rs) = r"

text \<open>
  The block that closes most templates:
  \<^verbatim>\<open>IF node.installable THEN PERFORM pg_notify('node_update', CAST(node.system_id AS text));
  ELSE PERFORM pg_notify('device_update', CAST(node.system_id AS text)); END IF;\<close>
\<close>

definition node_or_device_notify :: "row \<Rightarrow> notification" where
  "node_or_device_notify node =
     (if is_true (sql_eq (col ''installable'' node) (BoolV True))
      then pg_notify ''node_update'' (col ''system_id'' node)
      else pg_notify ''device_update'' (col ''system_id'' node))"

text \<open>
  \<^verbatim>\<open>IF node.system_id != '' THEN PERFORM pg_notify('node_update', ...); END IF;\<close>
\<close>

definition node_notify_if_found :: "row \<Rightarrow> notification list" where
  "node_notify_if_found node =
     (if is_true (sql_ne (col ''system_id'' node) (TextV ''''))
      then [pg_notify ''node_update'' (col ''system_id'' node)]
      else [])"

section \<open>The procedure templates\<close>

text \<open>
  A procedure is the statement \<^verbatim>\<open>CREATE OR REPLACE FUNCTION name() RETURNS trigger\<close>:
  its name and its body, a function from the OLD image, the NEW image and the tables to
  the notifications it performs, in order.  \<^verbatim>\<open>RETURN NEW\<close> is ignored for the AFTER
  triggers that call these procedures.
\<close>

type_synonym trigger_function = "row \<Rightarrow> row \<Rightarrow> database \<Rightarrow> notification list"

type_synonym procedure = "string \<times> trigger_function"

definition NODE_TAG_NOTIFY :: "string \<Rightarrow> colref \<Rightarrow> procedure" where
  "NODE_TAG_NOTIFY name rel = (name, \<lambda>old new db.
     let node = select_into
       [project [''system_id'', ''installable''] n.
          n \<leftarrow> maasserver_node db,
          is_true (sql_eq (col ''id'' n) (ref rel old new))]
     in [node_or_device_notify node])"

definition TAG_NODES_NOTIFY :: procedure where
  "TAG_NODES_NOTIFY = (''tag_update_node_device_notify'', \<lambda>old new db.
     map node_or_device_notify
       [project [''system_id'', ''installable''] n.
          nt \<leftarrow> maasserver_node_tags db, n \<leftarrow> maasserver_node db,
          is_true (sql_and (sql_eq (col ''tag_id'' nt) (col ''id'' new))
                           (sql_eq (col ''node_id'' nt) (col ''id'' n)))])"

definition EVENT_NODE_NOTIFY :: procedure where
  "EVENT_NODE_NOTIFY = (''event_create_node_device_notify'', \<lambda>old new db.
     let node = select_into
       [project [''system_id'', ''installable''] n.
          n \<leftarrow> maasserver_node db,
          is_true (sql_eq (col ''id'' n) (col ''node_id'' new))]
     in [node_or_device_notify node])"

definition NODEGROUP_INTERFACE_NODEGROUP_NOTIFY :: "string \<Rightarrow> colref \<Rightarrow> procedure" where
  "NODEGROUP_INTERFACE_NODEGROUP_NOTIFY name rel = (name, \<lambda>old new db.
     [pg_notify ''nodegroup_update'' (ref rel old new)])"

definition MACSTATICIPADDRESSLINK_NODE_NOTIFY :: "string \<Rightarrow> colref \<Rightarrow> procedure" where
  "MACSTATICIPADDRESSLINK_NODE_NOTIFY name rel = (name, \<lambda>old new db.
     let node = select_into
       [project [''system_id'', ''installable''] n.
          n \<leftarrow> maasserver_node db, m \<leftarrow> maasserver_macaddress db,
          is_true (sql_and (sql_eq (col ''id'' n) (col ''node_id'' m))
                           (sql_eq (col ''id'' m) (ref rel old new)))]
     in [node_or_device_notify node])"

definition DHCPLEASE_NODE_NOTIFY :: "string \<Rightarrow> colref \<Rightarrow> procedure" where
  "DHCPLEASE_NODE_NOTIFY name rel = (name, \<lambda>old new db.
     let node = select_into
       [project [''system_id'', ''installable''] n.
          n \<leftarrow> maasserver_node db, m \<leftarrow> maasserver_macaddress db,
          is_true (sql_and (sql_eq (col ''id'' n) (col ''node_id'' m))
                           (sql_eq (col ''mac_address'' m) (ref rel old new)))]
     in [node_or_device_notify node])"

definition MACADDRESS_UPDATE_NODE_NOTIFY :: procedure where
  "MACADDRESS_UPDATE_NODE_NOTIFY = (''nd_macaddress_update_notify'', \<lambda>old new db.
     (if is_true (sql_ne (col ''node_id'' old) (col ''node_id'' new))
      then let node = select_into
             [project [''system_id'', ''installable''] n.
                n \<leftarrow> maasserver_node db,
                is_true (sql_eq (col ''id'' n) (col ''node_id'' old))]
           in [node_or_device_notify node]
      else [])
     @ (let node = select_into
             [project [''system_id'', ''installable''] n.
                n \<leftarrow> maasserver_node db,
                is_true (sql_eq (col ''id'' n) (col ''node_id'' new))]
        in [node_or_device_notify node]))"

definition PHYSICAL_OR_VIRTUAL_BLOCK_DEVICE_NODE_NOTIFY :: "string \<Rightarrow> colref \<Rightarrow> procedure" where
  "PHYSICAL_OR_VIRTUAL_BLOCK_DEVICE_NODE_NOTIFY name rel = (name, \<lambda>old new db.
     let node = select_into
       [project [''system_id'', ''installable''] n.
          n \<leftarrow> maasserver_node db, b \<leftarrow> maasserver_blockdevice db,
          is_true (sql_and (sql_eq (col ''id'' n) (col ''node_id'' b))
                           (sql_eq (col ''id'' b) (ref rel old new)))]
     in [node_or_device_notify node])"

definition PARTITIONTABLE_NODE_NOTIFY :: "string \<Rightarrow> colref \<Rightarrow> procedure" where
  "PARTITIONTABLE_NODE_NOTIFY name rel = (name, \<lambda>old new db.
     let node = select_into
       [project [''system_id''] n.
          n \<leftarrow> maasserver_node db, b \<leftarrow> maasserver_blockdevice db,
          is_true (sql_and (sql_eq (col ''id'' n) (col ''node_id'' b))
                           (sql_eq (col ''id'' b) (ref rel old new)))]
     in [pg_notify ''node_update'' (col ''system_id'' node)])"

definition PARTITION_NODE_NOTIFY :: "string \<Rightarrow> colref \<Rightarrow> procedure" where
  "PARTITION_NODE_NOTIFY name rel = (name, \<lambda>old new db.
     let node = select_into
       [project [''system_id''] n.
          n \<leftarrow> maasserver_node db, b \<leftarrow> maasserver_blockdevice db,
          pt \<leftarrow> maasserver_partitiontable db,
          is_true (sql_and (sql_and (sql_eq (col ''id'' n) (col ''node_id'' b))
                                    (sql_eq (col ''id'' b) (col ''block_device_id'' pt)))
                           (sql_eq (col ''id'' pt) (ref rel old new)))]
     in [pg_notify ''node_update'' (col ''system_id'' node)])"

text \<open>
  In the WHERE clause of the next template AND binds tighter than OR, so the condition is
  \<open>(node = blockdevice.node AND blockdevice = %s) OR (the partition chain)\<close>.
\<close>

definition FILESYSTEM_NODE_NOTIFY :: "string \<Rightarrow> colref \<Rightarrow> colref \<Rightarrow> procedure" where
  "FILESYSTEM_NODE_NOTIFY name rel1 rel2 = (name, \<lambda>old new db.
     let node = select_into
       [project [''system_id''] n.
          n \<leftarrow> maasserver_node db, b \<leftarrow> maasserver_blockdevice db,
          p \<leftarrow> maasserver_partition db, pt \<leftarrow> maasserver_partitiontable db,
          is_true (sql_or
            (sql_and (sql_eq (col ''id'' n) (col ''node_id'' b))
                     (sql_eq (col ''id'' b) (ref rel1 old new)))
            (sql_and (sql_and (sql_eq (col ''id'' b) (col ''block_device_id'' pt))
                              (sql_eq (col ''id'' pt) (col ''partition_table_id'' p)))
                     (sql_eq (col ''id'' p) (ref rel2 old new))))]
     in node_notify_if_found node)"

definition FILESYSTEMGROUP_NODE_NOTIFY :: "string \<Rightarrow> colref \<Rightarrow> colref \<Rightarrow> procedure" where
  "FILESYSTEMGROUP_NODE_NOTIFY name rel1 rel2 = (name, \<lambda>old new db.
     let node = select_into
       [project [''system_id''] n.
          n \<leftarrow> maasserver_node db, b \<leftarrow> maasserver_blockdevice db,
          p \<leftarrow> maasserver_partition db, pt \<leftarrow> maasserver_partitiontable db,
          f \<leftarrow> maasserver_filesystem db,
          is_true (sql_and (sql_and (sql_and (sql_and
            (sql_eq (col ''id'' n) (col ''node_id'' b))
            (sql_eq (col ''id'' b) (col ''block_device_id'' pt)))
            (sql_eq (col ''id'' pt) (col ''partition_table_id'' p)))
            (sql_eq (col ''id'' p) (col ''partition_id'' f)))
            (sql_or (sql_eq (col ''filesystem_group_id'' f) (ref rel1 old new))
                    (sql_eq (col ''cache_set_id'' f) (ref rel2 old new))))]
     in node_notify_if_found node)"

definition CACHESET_NODE_NOTIFY :: "string \<Rightarrow> colref \<Rightarrow> procedure" where
  "CACHESET_NODE_NOTIFY name rel = (name, \<lambda>old new db.
     let node = select_into
       [project [''system_id''] n.
          n \<leftarrow> maasserver_node db, b \<leftarrow> maasserver_blockdevice db,
          p \<leftarrow> maasserver_partition db, pt \<leftarrow> maasserver_partitiontable db,
          f \<leftarrow> maasserver_filesystem db,
          is_true (sql_and (sql_and (sql_and (sql_and
            (sql_eq (col ''id'' n) (col ''node_id'' b))
            (sql_eq (col ''id'' b) (col ''block_device_id'' pt)))
            (sql_eq (col ''id'' pt) (col ''partition_table_id'' p)))
            (sql_eq (col ''id'' p) (col ''partition_id'' f)))
            (sql_eq (col ''cache_set_id'' f) (ref rel old new)))]
     in node_notify_if_found node)"

definition render_notification_procedure :: "string \<Rightarrow> string \<Rightarrow> colref \<Rightarrow> procedure" where
  "render_notification_procedure proc_name event_name cast = (proc_name, \<lambda>old new db.
     [pg_notify event_name (ref cast old new)])"

definition render_node_related_notification_procedure :: "string \<Rightarrow> colref \<Rightarrow> procedure" where
  "render_node_related_notification_procedure proc_name node_id_relation = (proc_name, \<lambda>old new db.
     let node = select_into
       [project [''system_id'', ''installable''] n.
          n \<leftarrow> maasserver_node db,
          is_true (sql_eq (col ''id'' n) (ref node_id_relation old new))]
     in [node_or_device_notify node])"

section \<open>The trigger catalogue and registration\<close>

datatype event = INSERT | UPDATE | DELETE

datatype timing = BEFORE | AFTER

text \<open>A value of the Python \<^verbatim>\<open>params\<close> dictionary and its rendering by \<^verbatim>\<open>'%s'\<close>.\<close>

datatype pyval = PyBool bool | PyInt int | PyStr string

fun py_str :: "pyval \<Rightarrow> string" where
  "py_str (PyBool b) = (if b then ''True'' else ''False'')"
| "py_str (PyInt i) = text_of_int i"
| "py_str (PyStr s) = s"

text \<open>
  A row of the trigger catalogue.  \<open>tgfilter\<close> is the WHEN clause: \<open>None\<close> when there is
  none, \<open>Some (c, lit)\<close> for \<^verbatim>\<open>WHEN (c = 'lit')\<close>.
\<close>

record trigger =
  tgname :: string
  tgtable :: string
  tgwhen :: timing
  tgevent :: event
  tgfilter :: "(colref \<times> string) option"
  tgproc :: string

record catalog =
  procedures :: "string \<rightharpoonup> trigger_function"
  triggers :: "trigger list"

definition empty_catalog :: catalog where
  "empty_catalog = \<lparr>procedures = Map.empty, triggers = []\<rparr>"

text \<open>
  What the database answers to a statement it rejects: a WHEN clause that does not parse,
  and a trigger on a procedure that does not exist; and the Python \<^verbatim>\<open>KeyError\<close> of a
  dictionary read.
\<close>

datatype error = SyntaxError | UndefinedFunction string | KeyError string

text \<open>
  The filter text is \<^verbatim>\<open>'WHEN (' + ''.join(["%s = '%s'" ...]) + ')'\<close>: the comparisons
  are joined by the empty string, so the text is a condition only when the dictionary
  has exactly one entry.
\<close>

fun render_filter :: "(colref \<times> pyval) list option \<Rightarrow> error + (colref \<times> string) option" where
  "render_filter None = Inr None"
| "render_filter (Some [(key, val)]) = Inr (Some (key, py_str val))"
| "render_filter (Some params) = Inl SyntaxError"

definition register_trigger ::
  "string \<Rightarrow> string \<Rightarrow> event \<Rightarrow> (colref \<times> pyval) list option \<Rightarrow> timing \<Rightarrow> catalog \<Rightarrow> error + catalog" where
  "register_trigger table procedure event params when c =
     (let trigger_name = table @ ''_'' @ procedure in
      case render_filter params of
        Inl e \<Rightarrow> Inl e
      | Inr flt \<Rightarrow>
          if procedures c procedure = None then Inl (UndefinedFunction procedure)
          else Inr (c\<lparr>triggers :=
            [t \<leftarrow> triggers c. \<not> (tgname t = trigger_name \<and> tgtable t = table)]
            @ [\<lparr>tgname = trigger_name, tgtable = table, tgwhen = when, tgevent = event,
                tgfilter = flt, tgproc = procedure\<rparr>]\<rparr>))"

definition register_procedure :: "procedure \<Rightarrow> catalog \<Rightarrow> catalog" where
  "register_procedure procedure c = c\<lparr>procedures := (procedures c)(fst procedure \<mapsto> snd procedure)\<rparr>"

text \<open>
  \<^verbatim>\<open>register_all_triggers\<close> is a straight sequence of calls; each is one element of
  the list below, in the order of the source, and an error ends the sequence (the
  exception leaves the function and the transaction is rolled back).
\<close>

datatype call =
    Register_procedure procedure
  | Register_trigger string string event "(colref \<times> pyval) list option" timing

fun perform :: "call \<Rightarrow> catalog \<Rightarrow> error + catalog" where
  "perform (Register_procedure p) c = Inr (register_procedure p c)"
| "perform (Register_trigger table procedure event params when) c =
     register_trigger table procedure event params when c"

fun perform_all :: "call list \<Rightarrow> catalog \<Rightarrow> error + catalog" where
  "perform_all [] c = Inr c"
| "perform_all (x # xs) c =
     (case perform x c of Inl e \<Rightarrow> Inl e | Inr c' \<Rightarrow> perform_all xs c')"

definition register_all_triggers_calls :: "call list" where
  "register_all_triggers_calls = [
     Register_procedure (render_notification_procedure ''node_create_notify'' ''node_create'' (NEW ''system_id'')),
     Register_procedure (render_notification_procedure ''node_update_notify'' ''node_update'' (NEW ''system_id'')),
     Register_procedure (render_notification_procedure ''node_delete_notify'' ''node_delete'' (OLD ''system_id'')),
     Register_trigger ''maasserver_node'' ''node_create_notify'' INSERT (Some [(NEW ''installable'', PyBool True)]) AFTER,
     Register_trigger ''maasserver_node'' ''node_update_notify'' UPDATE (Some [(NEW ''installable'', PyBool True)]) AFTER,
     Register_trigger ''maasserver_node'' ''node_delete_notify'' DELETE (Some [(OLD ''installable'', PyBool True)]) AFTER,
     Register_procedure (render_notification_procedure ''device_create_notify'' ''device_create'' (NEW ''system_id'')),
     Register_procedure (render_notification_procedure ''device_update_notify'' ''device_update'' (NEW ''system_id'')),
     Register_procedure (render_notification_procedure ''device_delete_notify'' ''device_delete'' (OLD ''system_id'')),
     Register_trigger ''maasserver_node'' ''device_create_notify'' INSERT (Some [(NEW ''installable'', PyBool False)]) AFTER,
     Register_trigger ''maasserver_node'' ''device_update_notify'' UPDATE (Some [(NEW ''installable'', PyBool False)]) AFTER,
     Register_trigger ''maasserver_node'' ''device_delete_notify'' DELETE (Some [(OLD ''installable'', PyBool False)]) AFTER,
     Register_procedure (render_notification_procedure ''nodegroup_create_notify'' ''nodegroup_create'' (NEW ''id'')),
     Register_procedure (render_notification_procedure ''nodegroup_update_notify'' ''nodegroup_update'' (NEW ''id'')),
     Register_procedure (render_notification_procedure ''nodegroup_delete_notify'' ''nodegroup_delete'' (OLD ''id'')),
     Register_trigger ''maasserver_nodegroup'' ''nodegroup_create_notify'' INSERT None AFTER,
     Register_trigger ''maasserver_nodegroup'' ''nodegroup_update_notify'' UPDATE None AFTER,
     Register_trigger ''maasserver_nodegroup'' ''nodegroup_delete_notify'' DELETE None AFTER,
     Register_procedure (NODEGROUP_INTERFACE_NODEGROUP_NOTIFY ''nodegroupinterface_create_notify'' (NEW ''nodegroup_id'')),
     Register_procedure (NODEGROUP_INTERFACE_NODEGROUP_NOTIFY ''nodegroupinterface_update_notify'' (NEW ''nodegroup_id'')),
     Register_procedure (NODEGROUP_INTERFACE_NODEGROUP_NOTIFY ''nodegroupinterface_delete_notify'' (OLD ''nodegroup_id'')),
     Register_trigger ''maasserver_nodegroupinterface'' ''nodegroupinterface_create_notify'' INSERT None AFTER,
     Register_trigger ''maasserver_nodegroupinterface'' ''nodegroupinterface_update_notify'' UPDATE None AFTER,
     Register_trigger ''maasserver_nodegroupinterface'' ''nodegroupinterface_delete_notify'' DELETE None AFTER,
     Register_procedure (render_notification_procedure ''zone_create_notify'' ''zone_create'' (NEW ''id'')),
     Register_procedure (render_notification_procedure ''zone_update_notify'' ''zone_update'' (NEW ''id'')),
     Register_procedure (render_notification_procedure ''zone_delete_notify'' ''zone_delete'' (OLD ''id'')),
     Register_trigger ''maasserver_zone'' ''zone_create_notify'' INSERT None AFTER,
     Register_trigger ''maasserver_zone'' ''zone_update_notify'' UPDATE None AFTER,
     Register_trigger ''maasserver_zone'' ''zone_delete_notify'' DELETE None AFTER,
     Register_procedure (render_notification_procedure ''tag_create_notify'' ''tag_create'' (NEW ''id'')),
     Register_procedure (render_notification_procedure ''tag_update_notify'' ''tag_update'' (NEW ''id'')),
     Register_procedure (render_notification_procedure ''tag_delete_notify'' ''tag_delete'' (OLD ''id'')),
     Register_trigger ''maasserver_tag'' ''tag_create_notify'' INSERT None AFTER,
     Register_trigger ''maasserver_tag'' ''tag_update_notify'' UPDATE None AFTER,
     Register_trigger ''maasserver_tag'' ''tag_delete_notify'' DELETE None AFTER,
     Register_procedure (NODE_TAG_NOTIFY ''node_device_tag_link_notify'' (NEW ''node_id'')),
     Register_procedure (NODE_TAG_NOTIFY ''node_device_tag_unlink_notify'' (OLD ''node_id'')),
     Register_trigger ''maasserver_node_tags'' ''node_device_tag_link_notify'' INSERT None AFTER,
     Register_trigger ''maasserver_node_tags'' ''node_device_tag_unlink_notify'' DELETE None AFTER,
     Register_procedure TAG_NODES_NOTIFY,
     Register_trigger ''maasserver_tag'' ''tag_update_node_device_notify'' UPDATE None AFTER,
     Register_procedure (render_notification_procedure ''user_create_notify'' ''user_create'' (NEW ''id'')),
     Register_procedure (render_notification_procedure ''user_update_notify'' ''user_update'' (NEW ''id'')),
     Register_procedure (render_notification_procedure ''user_delete_notify'' ''user_delete'' (OLD ''id'')),
     Register_trigger ''auth_user'' ''user_create_notify'' INSERT None AFTER,
     Register_trigger ''auth_user'' ''user_update_notify'' UPDATE None AFTER,
     Register_trigger ''auth_user'' ''user_delete_notify'' DELETE None AFTER,
     Register_procedure (render_notification_procedure ''event_create_notify'' ''event_create'' (NEW ''id'')),
     Register_procedure (render_notification_procedure ''event_update_notify'' ''event_update'' (NEW ''id'')),
     Register_procedure (render_notification_procedure ''event_delete_notify'' ''event_delete'' (OLD ''id'')),
     Register_trigger ''maasserver_event'' ''event_create_notify'' INSERT None AFTER,
     Register_trigger ''maasserver_event'' ''event_update_notify'' UPDATE None AFTER,
     Register_trigger ''maasserver_event'' ''event_delete_notify'' DELETE None AFTER,
     Register_procedure EVENT_NODE_NOTIFY,
     Register_trigger ''maasserver_event'' ''event_create_node_device_notify'' INSERT None AFTER,
     Register_procedure (MACSTATICIPADDRESSLINK_NODE_NOTIFY ''nd_sipaddress_link_notify'' (NEW ''mac_address_id'')),
     Register_procedure (MACSTATICIPADDRESSLINK_NODE_NOTIFY ''nd_sipaddress_unlink_notify'' (OLD ''mac_address_id'')),
     Register_trigger ''maasserver_macstaticipaddresslink'' ''nd_sipaddress_link_notify'' INSERT None AFTER,
     Register_trigger ''maasserver_macstaticipaddresslink'' ''nd_sipaddress_unlink_notify'' DELETE None AFTER,
     Register_procedure (DHCPLEASE_NODE_NOTIFY ''nd_dhcplease_match_notify'' (NEW ''mac'')),
     Register_procedure (DHCPLEASE_NODE_NOTIFY ''nd_dhcplease_unmatch_notify'' (OLD ''mac'')),
     Register_trigger ''maasserver_dhcplease'' ''nd_dhcplease_match_notify'' INSERT None AFTER,
     Register_trigger ''maasserver_dhcplease'' ''nd_dhcplease_unmatch_notify'' DELETE None AFTER,
     Register_procedure (render_node_related_notification_procedure ''nd_noderesult_link_notify'' (NEW ''node_id'')),
     Register_procedure (render_node_related_notification_procedure ''nd_noderesult_unlink_notify'' (OLD ''node_id'')),
     Register_trigger ''metadataserver_noderesult'' ''nd_noderesult_link_notify'' INSERT None AFTER,
     Register_trigger ''metadataserver_noderesult'' ''nd_noderesult_unlink_notify'' DELETE None AFTER,
     Register_procedure (render_node_related_notification_procedure ''nd_macaddress_link_notify'' (NEW ''node_id'')),
     Register_procedure (render_node_related_notification_procedure ''nd_macaddress_unlink_notify'' (OLD ''node_id'')),
     Register_procedure MACADDRESS_UPDATE_NODE_NOTIFY,
     Register_trigger ''maasserver_macaddress'' ''nd_macaddress_link_notify'' INSERT None AFTER,
     Register_trigger ''maasserver_macaddress'' ''nd_macaddress_unlink_notify'' DELETE None AFTER,
     Register_trigger ''maasserver_macaddress'' ''nd_macaddress_update_notify'' UPDATE None AFTER,
     Register_procedure (render_node_related_notification_procedure ''nd_blockdevice_link_notify'' (NEW ''node_id'')),
     Register_procedure (render_node_related_notification_procedure ''nd_blockdevice_update_notify'' (NEW ''node_id'')),
     Register_procedure (render_node_related_notification_procedure ''nd_blockdevice_unlink_notify'' (OLD ''node_id'')),
     Register_procedure (PHYSICAL_OR_VIRTUAL_BLOCK_DEVICE_NODE_NOTIFY ''nd_physblockdevice_update_notify'' (NEW ''blockdevice_ptr_id'')),
     Register_procedure (PHYSICAL_OR_VIRTUAL_BLOCK_DEVICE_NODE_NOTIFY ''nd_virtblockdevice_update_notify'' (NEW ''blockdevice_ptr_id'')),
     Register_trigger ''maasserver_blockdevice'' ''nd_blockdevice_link_notify'' INSERT None AFTER,
     Register_trigger ''maasserver_blockdevice'' ''nd_blockdevice_update_notify'' UPDATE None AFTER,
     Register_trigger ''maasserver_blockdevice'' ''nd_blockdevice_unlink_notify'' DELETE None AFTER,
     Register_trigger ''maasserver_physicalblockdevice'' ''nd_physblockdevice_update_notify'' UPDATE None AFTER,
     Register_trigger ''maasserver_virtualblockdevice'' ''nd_virtblockdevice_update_notify'' UPDATE None AFTER,
     Register_procedure (PARTITIONTABLE_NODE_NOTIFY ''nd_partitiontable_link_notify'' (NEW ''block_device_id'')),
     Register_procedure (PARTITIONTABLE_NODE_NOTIFY ''nd_partitiontable_update_notify'' (NEW ''block_device_id'')),
     Register_procedure (PARTITIONTABLE_NODE_NOTIFY ''nd_partitiontable_unlink_notify'' (OLD ''block_device_id'')),
     Register_trigger ''maasserver_partitiontable'' ''nd_partitiontable_link_notify'' INSERT None AFTER,
     Register_trigger ''maasserver_partitiontable'' ''nd_partitiontable_update_notify'' UPDATE None AFTER,
     Register_trigger ''maasserver_partitiontable'' ''nd_partitiontable_unlink_notify'' DELETE None AFTER,
     Register_procedure (PARTITION_NODE_NOTIFY ''nd_partition_link_notify'' (NEW ''partition_table_id'')),
     Register_procedure (PARTITION_NODE_NOTIFY ''nd_partition_update_notify'' (NEW ''partition_table_id'')),
     Register_procedure (PARTITION_NODE_NOTIFY ''nd_partition_unlink_notify'' (OLD ''partition_table_id'')),
     Register_trigger ''maasserver_partition'' ''nd_partition_link_notify'' INSERT None AFTER,
     Register_trigger ''maasserver_partition'' ''nd_partition_update_notify'' UPDATE None AFTER,
     Register_trigger ''maasserver_partition'' ''nd_partition_unlink_notify'' DELETE None AFTER,
     Register_procedure (FILESYSTEM_NODE_NOTIFY ''nd_filesystem_link_notify'' (NEW ''block_device_id'') (NEW ''partition_id'')),
     Register_procedure (FILESYSTEM_NODE_NOTIFY ''nd_filesystem_update_notify'' (NEW ''block_device_id'') (NEW ''partition_id'')),
     Register_procedure (FILESYSTEM_NODE_NOTIFY ''nd_filesystem_unlink_notify'' (OLD ''block_device_id'') (OLD ''partition_id'')),
     Register_trigger ''maasserver_filesystem'' ''nd_filesystem_link_notify'' INSERT None AFTER,
     Register_trigger ''maasserver_filesystem'' ''nd_filesystem_update_notify'' UPDATE None AFTER,
     Register_trigger ''maasserver_filesystem'' ''nd_filesystem_unlink_notify'' DELETE None AFTER,
     Register_procedure (FILESYSTEMGROUP_NODE_NOTIFY ''nd_filesystemgroup_link_notify'' (NEW ''id'') (NEW ''cache_set_id'')),
     Register_procedure (FILESYSTEMGROUP_NODE_NOTIFY ''nd_filesystemgroup_update_notify'' (NEW ''id'') (NEW ''cache_set_id'')),
     Register_procedure (FILESYSTEMGROUP_NODE_NOTIFY ''nd_filesystemgroup_unlink_notify'' (OLD ''id'') (OLD ''cache_set_id'')),
     Register_trigger ''maasserver_filesystemgroup'' ''nd_filesystemgroup_link_notify'' INSERT None AFTER,
     Register_trigger ''maasserver_filesystemgroup'' ''nd_filesystemgroup_update_notify'' UPDATE None AFTER,
     Register_trigger ''maasserver_filesystemgroup'' ''nd_filesystemgroup_unlink_notify'' DELETE None AFTER,
     Register_procedure (CACHESET_NODE_NOTIFY ''nd_cacheset_link_notify'' (NEW ''id'')),
     Register_procedure (CACHESET_NODE_NOTIFY ''nd_cacheset_update_notify'' (NEW ''id'')),
     Register_procedure (CACHESET_NODE_NOTIFY ''nd_cacheset_unlink_notify'' (OLD ''id'')),
     Register_trigger ''maasserver_cacheset'' ''nd_cacheset_link_notify'' INSERT None AFTER,
     Register_trigger ''maasserver_cacheset'' ''nd_cacheset_update_notify'' UPDATE None AFTER,
     Register_trigger ''maasserver_cacheset'' ''nd_cacheset_unlink_notify'' DELETE None AFTER,
     Register_procedure (render_notification_procedure ''user_sshkey_link_notify'' ''user_update'' (NEW ''user_id'')),
     Register_procedure (render_notification_procedure ''user_sshkey_unlink_notify'' ''user_update'' (OLD ''user_id'')),
     Register_trigger ''maasserver_sshkey'' ''user_sshkey_link_notify'' INSERT None AFTER,
     Register_trigger ''maasserver_sshkey'' ''user_sshkey_unlink_notify'' DELETE None AFTER,
     Register_procedure (render_notification_procedure ''user_sslkey_link_notify'' ''user_update'' (NEW ''user_id'')),
     Register_procedure (render_notification_procedure ''user_sslkey_unlink_notify'' ''user_update'' (OLD ''user_id'')),
     Register_trigger ''maasserver_sslkey'' ''user_sslkey_link_notify'' INSERT None AFTER,
     Register_trigger ''maasserver_sslkey'' ''user_sslkey_unlink_notify'' DELETE None AFTER
   ]"

definition register_all_triggers :: "catalog \<Rightarrow> error + catalog" where
  "register_all_triggers c = perform_all register_all_triggers_calls c"

section \<open>Firing the triggers of a mutation\<close>

datatype mutation = Insert row | Update row row | Delete row

fun mutation_event :: "mutation \<Rightarrow> event" where
  "mutation_event (Insert new) = INSERT"
| "mutation_event (Update old new) = UPDATE"
| "mutation_event (Delete old) = DELETE"

fun old_row :: "mutation \<Rightarrow> row" where
  "old_row (Insert new) = []"
| "old_row (Update old new) = old"
| "old_row (Delete old) = old"

fun new_row :: "mutation \<Rightarrow> row" where
  "new_row (Insert new) = new"
| "new_row (Update old new) = new"
| "new_row (Delete old) = []"

text \<open>
  A quoted literal compared with a column takes the column's type; \<^verbatim>\<open>'True'\<close> and
  \<^verbatim>\<open>'False'\<close> are the renderings of the Python booleans.
\<close>

fun sql_eq_literal :: "sqlval \<Rightarrow> string \<Rightarrow> bool option" where
  "sql_eq_literal Null lit = None"
| "sql_eq_literal (BoolV b) lit =
     (if lit = ''True'' \<or> lit = ''true'' then Some b
      else if lit = ''False'' \<or> lit = ''false'' then Some (\<not> b)
      else None)"
| "sql_eq_literal (IntV i) lit = Some (text_of_int i = lit)"
| "sql_eq_literal (TextV s) lit = Some (s = lit)"

fun when_holds :: "(colref \<times> string) option \<Rightarrow> row \<Rightarrow> row \<Rightarrow> bool" where
  "when_holds None old new = True"
| "when_holds (Some (c, lit)) old new = is_true (sql_eq_literal (ref c old new) lit)"

definition fires :: "string \<Rightarrow> mutation \<Rightarrow> trigger \<Rightarrow> bool" where
  "fires table m t =
     (tgtable t = table \<and> tgevent t = mutation_event m
      \<and> when_holds (tgfilter t) (old_row m) (new_row m))"

text \<open>The triggers of one event on one table fire in the order of their names.\<close>

fun run_triggers :: "catalog \<Rightarrow> database \<Rightarrow> mutation \<Rightarrow> trigger list \<Rightarrow> error + notification list" where
  "run_triggers c db m [] = Inr []"
| "run_triggers c db m (t # ts) =
     (case procedures c (tgproc t) of
        None \<Rightarrow> Inl (UndefinedFunction (tgproc t))
      | Some f \<Rightarrow>
          (case run_triggers c db m ts of
             Inl e \<Rightarrow> Inl e
           | Inr ns \<Rightarrow> Inr (f (old_row m) (new_row m) db @ ns)))"

definition fire :: "catalog \<Rightarrow> database \<Rightarrow> string \<Rightarrow> mutation \<Rightarrow> error + notification list" where
  "fire c db table m =
     run_triggers c db m (sort_key tgname [t \<leftarrow> triggers c. fires table m t])"

text \<open>
  The notifications of a mutation once \<^verbatim>\<open>register_all_triggers\<close> has run on a
  database that had no triggers: \<open>db\<close> is the state of the tables the procedures see.
\<close>

definition notifications :: "database \<Rightarrow> string \<Rightarrow> mutation \<Rightarrow> error + notification list" where
  "notifications db table m =
     (case register_all_triggers empty_catalog of
        Inl e \<Rightarrow> Inl e
      | Inr c \<Rightarrow> fire c db table m)"

text \<open>The names of the triggers that fire for a mutation, in firing order.\<close>

definition firing_triggers :: "string \<Rightarrow> mutation \<Rightarrow> error + string list" where
  "firing_triggers table m =
     (case register_all_triggers empty_catalog of
        Inl e \<Rightarrow> Inl e
      | Inr c \<Rightarrow> Inr (map tgname (sort_key tgname [t \<leftarrow> triggers c. fires table m t])))"

section \<open>Views (\<^verbatim>\<open>maasserver/dbviews.py\<close>)\<close>

text \<open>
  The catalogue of views maps a view's name to its query.  The query texts are opaque to
  registration and removal; each is the constructor named after the Python constant that
  holds it.
\<close>

datatype view_sql =
    maasserver_discovery
  | maas_support__node_overview
  | maas_support__device_overview
  | maas_support__node_networking
  | maas_support__boot_source_selections
  | maas_support__boot_source_cache
  | maas_support__configuration__excluding_rpc_shared_secret
  | maas_support__license_keys_present__excluding_key_material
  | maas_support__ssh_keys__by_user
  | maas_support__commissioning_result_summary

type_synonym views = "string \<rightharpoonup> view_sql"

text \<open>\<^verbatim>\<open>_drop_view_if_exists\<close>: \<^verbatim>\<open>DROP VIEW IF EXISTS name\<close>.\<close>

definition drop_view_if_exists :: "string \<Rightarrow> views \<Rightarrow> views" where
  "drop_view_if_exists view_name vs = vs(view_name := None)"

text \<open>\<^verbatim>\<open>_register_view\<close>: \<^verbatim>\<open>CREATE OR REPLACE VIEW name AS (sql)\<close>.\<close>

definition register_view_sql :: "string \<Rightarrow> view_sql \<Rightarrow> views \<Rightarrow> views" where
  "register_view_sql view_name sql vs = vs(view_name \<mapsto> sql)"

text \<open>\<^verbatim>\<open>_ALL_VIEWS\<close>, in the order the dictionary is written.\<close>

definition ALL_VIEWS :: "(string \<times> view_sql) list" where
  "ALL_VIEWS = [
     (''maasserver_discovery'', maasserver_discovery),
     (''maas_support__node_overview'', maas_support__node_overview),
     (''maas_support__device_overview'', maas_support__device_overview),
     (''maas_support__node_networking'', maas_support__node_networking),
     (''maas_support__boot_source_selections'', maas_support__boot_source_selections),
     (''maas_support__boot_source_cache'', maas_support__boot_source_cache),
     (''maas_support__configuration__excluding_rpc_shared_secret'',
        maas_support__configuration__excluding_rpc_shared_secret),
     (''maas_support__license_keys_present__excluding_key_material'',
        maas_support__license_keys_present__excluding_key_material),
     (''maas_support__ssh_keys__by_user'', maas_support__ssh_keys__by_user),
     (''maas_support__commissioning_result_summary'',
        maas_support__commissioning_result_summary)]"

definition register_all_views :: "views \<Rightarrow> views" where
  "register_all_views vs =
     foldl (\<lambda>vs (view_name, sql). register_view_sql view_name sql vs) vs ALL_VIEWS"

definition drop_all_views :: "views \<Rightarrow> views" where
  "drop_all_views vs =
     foldl (\<lambda>vs view_name. drop_view_if_exists view_name vs) vs (map fst ALL_VIEWS)"

definition register_view :: "string \<Rightarrow> views \<Rightarrow> error + views" where
  "register_view view_name vs =
     (case map_of ALL_VIEWS view_name of
        None \<Rightarrow> Inl (KeyError view_name)
      | Some sql \<Rightarrow> Inr (register_view_sql view_name sql vs))"

section \<open>What a sequence of registrations leaves in the catalogue\<close>

text \<open>
  A trigger is identified by its name and its table.  Registering a trigger removes the
  trigger of that name on that table and appends the new one; registering a procedure
  overwrites the entry of its name.
\<close>

definition trigger_key :: "trigger \<Rightarrow> string \<times> string" where
  "trigger_key t = (tgname t, tgtable t)"

definition replace_trigger :: "trigger list \<Rightarrow> trigger \<Rightarrow> trigger list" where
  "replace_trigger ts t = [x \<leftarrow> ts. trigger_key x \<noteq> trigger_key t] @ [t]"

definition add_procedure ::
  "(string \<rightharpoonup> trigger_function) \<Rightarrow> procedure \<Rightarrow> (string \<rightharpoonup> trigger_function)" where
  "add_procedure m p = m(fst p \<mapsto> snd p)"

definition filter_of :: "(colref \<times> pyval) list option \<Rightarrow> (colref \<times> string) option" where
  "filter_of params = (case render_filter params of Inl e \<Rightarrow> None | Inr flt \<Rightarrow> flt)"

definition filter_ok :: "(colref \<times> pyval) list option \<Rightarrow> bool" where
  "filter_ok params = (case render_filter params of Inl e \<Rightarrow> False | Inr flt \<Rightarrow> True)"

fun procs_of :: "call list \<Rightarrow> procedure list" where
  "procs_of [] = []"
| "procs_of (Register_procedure p # cs) = p # procs_of cs"
| "procs_of (Register_trigger table procedure event params when # cs) = procs_of cs"

fun trigs_of :: "call list \<Rightarrow> trigger list" where
  "trigs_of [] = []"
| "trigs_of (Register_procedure p # cs) = trigs_of cs"
| "trigs_of (Register_trigger table procedure event params when # cs) =
     \<lparr>tgname = table @ ''_'' @ procedure, tgtable = table, tgwhen = when, tgevent = event,
      tgfilter = filter_of params, tgproc = procedure\<rparr> # trigs_of cs"

text \<open>
  A sequence of calls the database accepts from any catalogue in which the procedures
  \<open>known\<close> exist: every trigger names a procedure registered before it, and its filter
  parses.
\<close>

fun well_formed :: "string list \<Rightarrow> call list \<Rightarrow> bool" where
  "well_formed known [] = True"
| "well_formed known (Register_procedure p # cs) = well_formed (fst p # known) cs"
| "well_formed known (Register_trigger table procedure event params when # cs) =
     (procedure \<in> set known \<and> filter_ok params \<and> well_formed known cs)"

definition installed :: catalog where
  "installed = empty_catalog\<lparr>
     procedures := foldl add_procedure Map.empty (procs_of register_all_triggers_calls),
     triggers := trigs_of register_all_triggers_calls\<rparr>"

text \<open>
  The routing rule of the specification for an owning node \<open>r\<close>: \<^verbatim>\<open>node_update\<close> when the
  node is installable, \<^verbatim>\<open>device_update\<close> when it is not, with the node's system_id as
  payload.
\<close>

definition owner_notification :: "row \<Rightarrow> notification" where
  "owner_notification r =
     (if col ''installable'' r = BoolV True then ''node_update'' else ''device_update'',
      cast_text (col ''system_id'' r))"











text \<open>Registering twice in succession, and the number of triggers of one operation on a table.\<close>

definition register_twice :: "catalog \<Rightarrow> error + catalog" where
  "register_twice c =
     (case register_all_triggers c of Inl e \<Rightarrow> Inl e | Inr c' \<Rightarrow> register_all_triggers c')"

definition count_triggers_on :: "string \<Rightarrow> event \<Rightarrow> error + catalog \<Rightarrow> error + nat" where
  "count_triggers_on table ev r =
     (case r of
        Inl e \<Rightarrow> Inl e
      | Inr c \<Rightarrow> Inr (length [t \<leftarrow> triggers c. tgtable t = table \<and> tgevent t = ev]))"

text \<open>A database with no rows, for concrete evaluations.\<close>

definition empty_database :: database where
  "empty_database = \<lparr>maasserver_node = [], maasserver_node_tags = [], maasserver_macaddress = [],
     maasserver_blockdevice = [], maasserver_partitiontable = [], maasserver_partition = [],
     maasserver_filesystem = []\<rparr>"


definition two_node_database :: database where
  "two_node_database = empty_database\<lparr>
     maasserver_node := [
       [(''id'', IntV 1), (''system_id'', TextV ''abc''), (''installable'', BoolV True)],
       [(''id'', IntV 2), (''system_id'', TextV ''xyz''), (''installable'', BoolV False)] ],
     maasserver_node_tags := [
       [(''id'', IntV 1), (''node_id'', IntV 1), (''tag_id'', IntV 4)],
       [(''id'', IntV 2), (''node_id'', IntV 2), (''tag_id'', IntV 4)] ]\<rparr>"

section \<open>Registration on a database without triggers\<close>

lemma register_trigger_ok:
  assumes "filter_ok params" and "procedures c procedure \<noteq> None"
  shows "register_trigger table procedure event params when c =
    Inr (c\<lparr>triggers := replace_trigger (triggers c)
      \<lparr>tgname = table @ ''_'' @ procedure, tgtable = table, tgwhen = when, tgevent = event,
       tgfilter = filter_of params, tgproc = procedure\<rparr>\<rparr>)"
  using assms
  by (auto simp: register_trigger_def filter_ok_def filter_of_def replace_trigger_def
      trigger_key_def Let_def split: sum.splits)

lemma perform_all_well_formed:
  "well_formed known cs \<Longrightarrow> \<forall>n\<in>set known. procedures c n \<noteq> None \<Longrightarrow>
   perform_all cs c = Inr (c\<lparr>procedures := foldl add_procedure (procedures c) (procs_of cs),
                            triggers := foldl replace_trigger (triggers c) (trigs_of cs)\<rparr>)"
proof (induction cs arbitrary: c known)
  case Nil
  then show ?case by simp
next
  case (Cons x cs)
  show ?case
  proof (cases x)
    case (Register_procedure p)
    let ?c = "register_procedure p c"
    have wf: "well_formed (fst p # known) cs"
      using Cons.prems(1) Register_procedure by simp
    have known: "\<forall>n\<in>set (fst p # known). procedures ?c n \<noteq> None"
      using Cons.prems(2) by (simp add: register_procedure_def)
    show ?thesis
      using Cons.IH [OF wf known] Register_procedure
      by (simp add: register_procedure_def add_procedure_def)
  next
    case (Register_trigger table procedure event params when')
    have ok: "filter_ok params" and ex: "procedures c procedure \<noteq> None"
      and wf: "well_formed known cs"
      using Cons.prems Register_trigger by auto
    let ?t = "\<lparr>tgname = table @ ''_'' @ procedure, tgtable = table, tgwhen = when', tgevent = event,
       tgfilter = filter_of params, tgproc = procedure\<rparr>"
    let ?c = "c\<lparr>triggers := replace_trigger (triggers c) ?t\<rparr>"
    have known: "\<forall>n\<in>set known. procedures ?c n \<noteq> None"
      using Cons.prems(2) by simp
    show ?thesis
      using Cons.IH [OF wf known] Register_trigger register_trigger_ok [OF ok ex]
      by simp
  qed
qed

lemma foldl_replace_trigger:
  "distinct (map trigger_key ts) \<Longrightarrow>
   foldl replace_trigger xs ts = [x \<leftarrow> xs. trigger_key x \<notin> set (map trigger_key ts)] @ ts"
proof (induction ts rule: rev_induct)
  case Nil
  then show ?case by simp
next
  case (snoc t ts)
  then have d: "distinct (map trigger_key ts)" and n: "trigger_key t \<notin> set (map trigger_key ts)"
    by auto
  have same: "[x \<leftarrow> ts. trigger_key x \<noteq> trigger_key t] = ts"
    using n by (induction ts) auto
  show ?case
    using snoc.IH [OF d] same
    by (auto simp: replace_trigger_def intro!: filter_cong)
qed

lemma foldl_add_procedure:
  "foldl add_procedure m ps = m ++ map_of (rev ps)"
  by (induction ps arbitrary: m) (simp_all add: add_procedure_def map_add_upd_left map_add_def fun_eq_iff split: option.splits)


lemma fst_templates [simp]:
  "fst (render_notification_procedure n e c) = n"
  "fst (render_node_related_notification_procedure n r) = n"
  "fst (NODE_TAG_NOTIFY n r) = n"
  "fst TAG_NODES_NOTIFY = ''tag_update_node_device_notify''"
  "fst EVENT_NODE_NOTIFY = ''event_create_node_device_notify''"
  "fst (NODEGROUP_INTERFACE_NODEGROUP_NOTIFY n r) = n"
  "fst (MACSTATICIPADDRESSLINK_NODE_NOTIFY n r) = n"
  "fst (DHCPLEASE_NODE_NOTIFY n r) = n"
  "fst MACADDRESS_UPDATE_NODE_NOTIFY = ''nd_macaddress_update_notify''"
  "fst (PHYSICAL_OR_VIRTUAL_BLOCK_DEVICE_NODE_NOTIFY n r) = n"
  "fst (PARTITIONTABLE_NODE_NOTIFY n r) = n"
  "fst (PARTITION_NODE_NOTIFY n r) = n"
  "fst (FILESYSTEM_NODE_NOTIFY n r r') = n"
  "fst (FILESYSTEMGROUP_NODE_NOTIFY n r r') = n"
  "fst (CACHESET_NODE_NOTIFY n r) = n"
  by (simp_all add: render_notification_procedure_def render_node_related_notification_procedure_def
  NODE_TAG_NOTIFY_def TAG_NODES_NOTIFY_def EVENT_NODE_NOTIFY_def NODEGROUP_INTERFACE_NODEGROUP_NOTIFY_def
  MACSTATICIPADDRESSLINK_NODE_NOTIFY_def DHCPLEASE_NODE_NOTIFY_def MACADDRESS_UPDATE_NODE_NOTIFY_def
  PHYSICAL_OR_VIRTUAL_BLOCK_DEVICE_NODE_NOTIFY_def PARTITIONTABLE_NODE_NOTIFY_def PARTITION_NODE_NOTIFY_def
  FILESYSTEM_NODE_NOTIFY_def FILESYSTEMGROUP_NODE_NOTIFY_def CACHESET_NODE_NOTIFY_def)

lemmas string_eq = list.inject char.inject simp_thms list.distinct

lemma calls_well_formed: "well_formed [] register_all_triggers_calls"
  by (simp only: register_all_triggers_calls_def well_formed.simps fst_templates filter_ok_def
      render_filter.simps sum.case list.set insert_iff empty_iff string_eq py_str.simps)

lemma calls_distinct: "distinct (map trigger_key (trigs_of register_all_triggers_calls))"
  by (simp only: register_all_triggers_calls_def trigs_of.simps list.map trigger_key_def
      trigger.simps distinct.simps list.set insert_iff empty_iff prod.inject append.simps string_eq)

lemma registered: "register_all_triggers empty_catalog = Inr installed"
  using perform_all_well_formed [OF calls_well_formed, of empty_catalog]
    foldl_replace_trigger [OF calls_distinct, of "[]"]
  by (simp add: register_all_triggers_def installed_def empty_catalog_def)

lemma notifications_installed: "notifications db table m = fire installed db table m"
  by (simp add: notifications_def registered)

lemma firing_installed:
  "firing_triggers table m =
     Inr (map tgname (sort_key tgname [t \<leftarrow> triggers installed. fires table m t]))"
  by (simp add: firing_triggers_def registered)

lemma triggers_installed: "triggers installed = trigs_of register_all_triggers_calls"
  and procedures_installed:
    "procedures installed = foldl add_procedure Map.empty (procs_of register_all_triggers_calls)"
  by (simp_all add: installed_def empty_catalog_def)

text \<open>Rules that select the triggers of a table and look a procedure up by evaluation.\<close>

lemmas select_triggers = triggers_installed register_all_triggers_calls_def string_eq
  if_True if_False trigger.simps event.distinct timing.distinct mutation_event.simps
  when_holds.simps filter.simps append.simps fires_def filter_of_def render_filter.simps
  sum.case old_row.simps new_row.simps trigs_of.simps option.case prod.case py_str.simps
  ref.simps sql_eq_literal.simps

lemmas lookup_procedure = procedures_installed register_all_triggers_calls_def procs_of.simps
  foldl.simps add_procedure_def fst_templates fun_upd_apply string_eq if_True if_False

section \<open>The triggers and procedures of single tables\<close>

lemma run_triggers_single:
  "procedures c (tgproc t) = Some f \<Longrightarrow> run_triggers c db m [t] = Inr (f (old_row m) (new_row m) db)"
  by simp

lemma node_triggers:
  assumes "col ''installable'' r = BoolV b"
  shows "[t \<leftarrow> triggers installed. fires ''maasserver_node'' (Insert r) t] =
           [\<lparr>tgname = ''maasserver_node_'' @ (if b then ''node_create_notify'' else ''device_create_notify''),
             tgtable = ''maasserver_node'', tgwhen = AFTER, tgevent = INSERT,
             tgfilter = Some (NEW ''installable'', if b then ''True'' else ''False''),
             tgproc = (if b then ''node_create_notify'' else ''device_create_notify'')\<rparr>]"
    and "[t \<leftarrow> triggers installed. fires ''maasserver_node'' (Update old r) t] =
           [\<lparr>tgname = ''maasserver_node_'' @ (if b then ''node_update_notify'' else ''device_update_notify''),
             tgtable = ''maasserver_node'', tgwhen = AFTER, tgevent = UPDATE,
             tgfilter = Some (NEW ''installable'', if b then ''True'' else ''False''),
             tgproc = (if b then ''node_update_notify'' else ''device_update_notify'')\<rparr>]"
    and "[t \<leftarrow> triggers installed. fires ''maasserver_node'' (Delete r) t] =
           [\<lparr>tgname = ''maasserver_node_'' @ (if b then ''node_delete_notify'' else ''device_delete_notify''),
             tgtable = ''maasserver_node'', tgwhen = AFTER, tgevent = DELETE,
             tgfilter = Some (OLD ''installable'', if b then ''True'' else ''False''),
             tgproc = (if b then ''node_delete_notify'' else ''device_delete_notify'')\<rparr>]"
  using assms by (cases b; simp only: select_triggers is_true_def option.inject cong: if_weak_cong)+

lemma node_procedures:
  "procedures installed ''node_create_notify'' =
     Some (snd (render_notification_procedure ''node_create_notify'' ''node_create'' (NEW ''system_id'')))"
  "procedures installed ''device_create_notify'' =
     Some (snd (render_notification_procedure ''device_create_notify'' ''device_create'' (NEW ''system_id'')))"
  "procedures installed ''node_delete_notify'' =
     Some (snd (render_notification_procedure ''node_delete_notify'' ''node_delete'' (OLD ''system_id'')))"
  "procedures installed ''device_delete_notify'' =
     Some (snd (render_notification_procedure ''device_delete_notify'' ''device_delete'' (OLD ''system_id'')))"
  by (simp_all only: lookup_procedure cong: if_weak_cong)

lemma node_insert:
  assumes "col ''installable'' new = BoolV b"
  shows "notifications db ''maasserver_node'' (Insert new) =
     Inr [(if b then ''node_create'' else ''device_create'', cast_text (col ''system_id'' new))]"
  by (simp add: notifications_installed fire_def node_triggers(1) [OF assms] node_procedures
      render_notification_procedure_def pg_notify_def)

lemma node_delete:
  assumes "col ''installable'' old = BoolV b"
  shows "notifications db ''maasserver_node'' (Delete old) =
     Inr [(if b then ''node_delete'' else ''device_delete'', cast_text (col ''system_id'' old))]"
  by (simp add: notifications_installed fire_def node_triggers(3) [OF assms] node_procedures
      render_notification_procedure_def pg_notify_def)

lemma key_procedures:
  "procedures installed ''user_sshkey_link_notify'' =
     Some (snd (render_notification_procedure ''user_sshkey_link_notify'' ''user_update'' (NEW ''user_id'')))"
  "procedures installed ''user_sshkey_unlink_notify'' =
     Some (snd (render_notification_procedure ''user_sshkey_unlink_notify'' ''user_update'' (OLD ''user_id'')))"
  "procedures installed ''user_sslkey_link_notify'' =
     Some (snd (render_notification_procedure ''user_sslkey_link_notify'' ''user_update'' (NEW ''user_id'')))"
  "procedures installed ''user_sslkey_unlink_notify'' =
     Some (snd (render_notification_procedure ''user_sslkey_unlink_notify'' ''user_update'' (OLD ''user_id'')))"
  by (simp_all only: lookup_procedure cong: if_weak_cong)

lemma key_triggers:
  "[t \<leftarrow> triggers installed. fires ''maasserver_sshkey'' (Insert new) t] =
     [\<lparr>tgname = ''maasserver_sshkey_user_sshkey_link_notify'', tgtable = ''maasserver_sshkey'',
       tgwhen = AFTER, tgevent = INSERT, tgfilter = None, tgproc = ''user_sshkey_link_notify''\<rparr>]"
  "[t \<leftarrow> triggers installed. fires ''maasserver_sshkey'' (Delete old) t] =
     [\<lparr>tgname = ''maasserver_sshkey_user_sshkey_unlink_notify'', tgtable = ''maasserver_sshkey'',
       tgwhen = AFTER, tgevent = DELETE, tgfilter = None, tgproc = ''user_sshkey_unlink_notify''\<rparr>]"
  "[t \<leftarrow> triggers installed. fires ''maasserver_sslkey'' (Insert new) t] =
     [\<lparr>tgname = ''maasserver_sslkey_user_sslkey_link_notify'', tgtable = ''maasserver_sslkey'',
       tgwhen = AFTER, tgevent = INSERT, tgfilter = None, tgproc = ''user_sslkey_link_notify''\<rparr>]"
  "[t \<leftarrow> triggers installed. fires ''maasserver_sslkey'' (Delete old) t] =
     [\<lparr>tgname = ''maasserver_sslkey_user_sslkey_unlink_notify'', tgtable = ''maasserver_sslkey'',
       tgwhen = AFTER, tgevent = DELETE, tgfilter = None, tgproc = ''user_sslkey_unlink_notify''\<rparr>]"
  by (simp_all only: select_triggers cong: if_weak_cong)

lemma text_of_7: "text_of_int 7 = ''7''"
  by (simp add: text_of_int_def digits_of_nat.simps)

lemma filesystem_insert_triggers:
  "[t \<leftarrow> triggers installed. fires ''maasserver_filesystem'' (Insert new) t] =
     [\<lparr>tgname = ''maasserver_filesystem_nd_filesystem_link_notify'',
       tgtable = ''maasserver_filesystem'', tgwhen = AFTER, tgevent = INSERT,
       tgfilter = None, tgproc = ''nd_filesystem_link_notify''\<rparr>]"
  by (simp only: select_triggers cong: if_weak_cong)

lemma filesystem_insert_procedure:
  "procedures installed ''nd_filesystem_link_notify'' =
     Some (snd (FILESYSTEM_NODE_NOTIFY ''nd_filesystem_link_notify'' (NEW ''block_device_id'')
                  (NEW ''partition_id'')))"
  by (simp only: lookup_procedure cong: if_weak_cong)

text \<open>The guard of the filesystem procedure: with no owning node found, nothing is emitted.\<close>

lemma filesystem_unresolved_silent:
  "notifications empty_database ''maasserver_filesystem''
     (Insert [(''id'', IntV 9), (''block_device_id'', IntV 5), (''partition_id'', Null)]) = Inr []"
  by (simp add: notifications_installed fire_def filesystem_insert_triggers
      filesystem_insert_procedure FILESYSTEM_NODE_NOTIFY_def empty_database_def
      node_notify_if_found_def is_true_def sql_ne_def col_def)

lemma col_project [simp]: "c \<in> set cs \<Longrightarrow> col c (project cs r) = col c r"
  by (induction cs) (auto simp: col_def project_def)

lemma col_Nil [simp]: "col c [] = Null"
  by (simp add: col_def)

lemma is_true_sql_eq: "is_true (sql_eq a b) = (a = b \<and> b \<noteq> Null)"
  by (auto simp: is_true_def sql_eq_def)

lemma is_true_sql_and: "is_true (sql_and p q) = (is_true p \<and> is_true q)"
  by (cases "(p, q)" rule: sql_and.cases) (auto simp: is_true_def)


lemma node_or_device_notify_project:
  "node_or_device_notify (project [''system_id'', ''installable''] r) = owner_notification r"
  by (simp add: node_or_device_notify_def is_true_def sql_eq_def pg_notify_def
      owner_notification_def)




lemma partitiontable_insert_triggers:
  "[t \<leftarrow> triggers installed. fires ''maasserver_partitiontable'' (Insert new) t] =
     [\<lparr>tgname = ''maasserver_partitiontable_nd_partitiontable_link_notify'',
       tgtable = ''maasserver_partitiontable'', tgwhen = AFTER, tgevent = INSERT,
       tgfilter = None, tgproc = ''nd_partitiontable_link_notify''\<rparr>]"
  by (simp only: select_triggers cong: if_weak_cong)

lemma partitiontable_insert_procedure:
  "procedures installed ''nd_partitiontable_link_notify'' =
     Some (snd (PARTITIONTABLE_NODE_NOTIFY ''nd_partitiontable_link_notify'' (NEW ''block_device_id'')))"
  by (simp only: lookup_procedure cong: if_weak_cong)

lemma partitiontable_insert:
  "notifications db ''maasserver_partitiontable'' (Insert new) =
     Inr (snd (PARTITIONTABLE_NODE_NOTIFY ''nd_partitiontable_link_notify'' (NEW ''block_device_id''))
            [] new db)"
  by (simp add: notifications_installed fire_def partitiontable_insert_triggers
      partitiontable_insert_procedure)


lemma concat_map_if:
  "concat (map (\<lambda>x. if P x then [f x] else []) xs) = map f (filter P xs)"
  by (induction xs) auto

lemma filter_key_unique:
  "distinct (map f xs) \<Longrightarrow> r \<in> set xs \<Longrightarrow> filter (\<lambda>x. f x = f r) xs = [r]"
proof (induction xs)
  case Nil
  then show ?case by simp
next
  case (Cons x xs)
  show ?case
  proof (cases "x = r")
    case True
    have "filter (\<lambda>y. f y = f r) xs = []"
      using Cons.prems(1) True by (force simp: filter_empty_conv image_iff)
    then show ?thesis using True by simp
  next
    case False
    then have "f x \<noteq> f r" using Cons.prems by auto
    then show ?thesis using Cons False by auto
  qed
qed

lemma select_node_by_id:
  assumes "distinct (map (col ''id'') (maasserver_node db))"
    and "r \<in> set (maasserver_node db)" and "col ''id'' r = v" and "v \<noteq> Null"
  shows "[project cs n. n \<leftarrow> maasserver_node db, is_true (sql_eq (col ''id'' n) v)] = [project cs r]"
proof -
  have "[n \<leftarrow> maasserver_node db. col ''id'' n = col ''id'' r] = [r]"
    using filter_key_unique [OF assms(1,2)] .
  then show ?thesis
    using assms(3,4) by (simp add: concat_map_if is_true_sql_eq)
qed

lemma macaddress_update_triggers:
  "[t \<leftarrow> triggers installed. fires ''maasserver_macaddress'' (Update old new) t] =
     [\<lparr>tgname = ''maasserver_macaddress_nd_macaddress_update_notify'',
       tgtable = ''maasserver_macaddress'', tgwhen = AFTER, tgevent = UPDATE,
       tgfilter = None, tgproc = ''nd_macaddress_update_notify''\<rparr>]"
  by (simp only: select_triggers cong: if_weak_cong)

lemma macaddress_update_procedure:
  "procedures installed ''nd_macaddress_update_notify'' = Some (snd MACADDRESS_UPDATE_NODE_NOTIFY)"
  by (simp only: lookup_procedure cong: if_weak_cong)

lemma macaddress_update:
  "notifications db ''maasserver_macaddress'' (Update old new) =
     Inr (snd MACADDRESS_UPDATE_NODE_NOTIFY old new db)"
  by (simp add: notifications_installed fire_def macaddress_update_triggers
      macaddress_update_procedure)

lemma tag_update_triggers:
  "sort_key tgname [t \<leftarrow> triggers installed. fires ''maasserver_tag'' (Update old new) t] =
     [\<lparr>tgname = ''maasserver_tag_tag_update_node_device_notify'', tgtable = ''maasserver_tag'',
       tgwhen = AFTER, tgevent = UPDATE, tgfilter = None,
       tgproc = ''tag_update_node_device_notify''\<rparr>,
      \<lparr>tgname = ''maasserver_tag_tag_update_notify'', tgtable = ''maasserver_tag'',
       tgwhen = AFTER, tgevent = UPDATE, tgfilter = None, tgproc = ''tag_update_notify''\<rparr>]"
  by (simp only: select_triggers cong: if_weak_cong) simp

lemma tag_update_procedures:
  "procedures installed ''tag_update_node_device_notify'' = Some (snd TAG_NODES_NOTIFY)"
  "procedures installed ''tag_update_notify'' =
     Some (snd (render_notification_procedure ''tag_update_notify'' ''tag_update'' (NEW ''id'')))"
  by (simp_all only: lookup_procedure cong: if_weak_cong)

lemma tag_update:
  "notifications db ''maasserver_tag'' (Update old new) =
     Inr (snd TAG_NODES_NOTIFY old new db @ [(''tag_update'', cast_text (col ''id'' new))])"
  by (simp add: notifications_installed fire_def tag_update_triggers tag_update_procedures
      render_notification_procedure_def pg_notify_def)

lemma concat_map_filter:
  "\<forall>x\<in>set xs. \<not> P x \<longrightarrow> f x = [] \<Longrightarrow> concat (map f xs) = concat (map f (filter P xs))"
  by (induction xs) auto

lemma register_all_triggers_result:
  "register_all_triggers c = Inr (c\<lparr>
     procedures := procedures c ++ map_of (rev (procs_of register_all_triggers_calls)),
     triggers := [x \<leftarrow> triggers c.
                    trigger_key x \<notin> set (map trigger_key (trigs_of register_all_triggers_calls))]
                 @ trigs_of register_all_triggers_calls\<rparr>)"
  using perform_all_well_formed [OF calls_well_formed, of c]
  by (simp add: register_all_triggers_def foldl_replace_trigger [OF calls_distinct]
      foldl_add_procedure)

lemma map_add_twice: "(m ++ f) ++ f = m ++ (f :: 'a \<rightharpoonup> 'b)"
  by (rule ext) (simp add: map_add_def split: option.splits)

lemma register_all_triggers_again:
  assumes "register_all_triggers c = Inr c'"
  shows "register_all_triggers c' = Inr c'"
proof -
  let ?K = "set (map trigger_key (trigs_of register_all_triggers_calls))"
  have c': "c' = c\<lparr>
     procedures := procedures c ++ map_of (rev (procs_of register_all_triggers_calls)),
     triggers := [x \<leftarrow> triggers c. trigger_key x \<notin> ?K] @ trigs_of register_all_triggers_calls\<rparr>"
    using assms register_all_triggers_result [of c] by simp
  have "[x \<leftarrow> trigs_of register_all_triggers_calls. trigger_key x \<notin> ?K] = []"
    by (simp add: filter_empty_conv)
  then show ?thesis
    unfolding register_all_triggers_result [of c']
    by (simp add: c' map_add_twice)
qed

lemma one_trigger_per_name:
  assumes "register_all_triggers c = Inr c'" and "t \<in> set (trigs_of register_all_triggers_calls)"
  shows "length [x \<leftarrow> triggers c'. tgname x = tgname t \<and> tgtable x = tgtable t] = 1"
proof -
  let ?T = "trigs_of register_all_triggers_calls"
  let ?K = "set (map trigger_key ?T)"
  have key: "(tgname x = tgname t \<and> tgtable x = tgtable t) = (trigger_key x = trigger_key t)" for x
    by (simp add: trigger_key_def)
  have c': "triggers c' = [x \<leftarrow> triggers c. trigger_key x \<notin> ?K] @ ?T"
    using assms(1) register_all_triggers_result [of c] by auto
  have kept: "[x \<leftarrow> [x \<leftarrow> triggers c. trigger_key x \<notin> ?K]. trigger_key x = trigger_key t] = []"
    using assms(2) by (auto simp: filter_empty_conv)
  have "[x \<leftarrow> ?T. trigger_key x = trigger_key t] = [t]"
    using filter_key_unique [OF calls_distinct assms(2)] .
  then show ?thesis
    unfolding key c' using kept by simp
qed

lemma tag_update_count:
  "length [t \<leftarrow> triggers installed. tgtable t = ''maasserver_tag'' \<and> tgevent t = UPDATE] = 2"
  by (simp only: select_triggers cong: if_weak_cong) simp

lemma foldl_drop_view:
  "foldl (\<lambda>vs view_name. drop_view_if_exists view_name vs) vs ns =
     (\<lambda>x. if x \<in> set ns then None else vs x)"
  by (induction ns arbitrary: vs) (auto simp: drop_view_if_exists_def fun_eq_iff)

lemma foldl_create_view:
  "foldl (\<lambda>vs (view_name, sql). register_view_sql view_name sql vs) vs kvs =
     vs ++ map_of (rev kvs)"
  by (induction kvs arbitrary: vs)
     (auto simp: register_view_sql_def map_add_def fun_eq_iff split: option.splits)

lemma map_of_rev_None: "(map_of (rev kvs) n = None) = (n \<notin> set (map fst kvs))"
  by (simp add: map_of_eq_None_iff)

lemma registered_view_exists:
  "n \<in> set (map fst ALL_VIEWS) \<Longrightarrow> register_all_views vs n \<noteq> None"
  using map_of_rev_None [of ALL_VIEWS n]
  by (auto simp: register_all_views_def foldl_create_view map_add_def split: option.splits)

lemma unregistered_view_kept:
  "n \<notin> set (map fst ALL_VIEWS) \<Longrightarrow> register_all_views vs n = vs n"
  using map_of_rev_None [of ALL_VIEWS n]
  by (auto simp: register_all_views_def foldl_create_view map_add_def split: option.splits)






















section \<open>The claims\<close>

text \<open>
  C1, as amended.  For every insert into the Node table of a row with installable = true,
  exactly one notification is emitted, on channel \<^verbatim>\<open>node_create\<close>, with payload the
  new row's system_id; for every insert of a row with installable = false, exactly one,
  on \<^verbatim>\<open>device_create\<close>.  (The insert is bound to \<^verbatim>\<open>node_create_notify\<close> and
  \<^verbatim>\<open>device_create_notify\<close>; \<^verbatim>\<open>node_update\<close> and \<^verbatim>\<open>device_update\<close> are the
  channels of the update triggers.)
\<close>

theorem node_insert_notifies_create:
  "(col ''installable'' new = BoolV True \<longrightarrow>
      notifications db ''maasserver_node'' (Insert new) =
        Inr [(''node_create'', cast_text (col ''system_id'' new))])
   \<and> (col ''installable'' new = BoolV False \<longrightarrow>
      notifications db ''maasserver_node'' (Insert new) =
        Inr [(''device_create'', cast_text (col ''system_id'' new))])"
  using node_insert [of new True db] node_insert [of new False db] by simp

theorem node_insert_notifies_create_witness:
  "notifications empty_database ''maasserver_node''
     (Insert [(''id'', IntV 1), (''system_id'', TextV ''abc''), (''installable'', BoolV True)]) =
     Inr [(''node_create'', Some ''abc'')]
   \<and> notifications empty_database ''maasserver_node''
     (Insert [(''id'', IntV 2), (''system_id'', TextV ''xyz''), (''installable'', BoolV False)]) =
     Inr [(''device_create'', Some ''xyz'')]"
  using node_insert_notifies_create
      [of "[(''id'', IntV 1), (''system_id'', TextV ''abc''), (''installable'', BoolV True)]"
          empty_database]
    node_insert_notifies_create
      [of "[(''id'', IntV 2), (''system_id'', TextV ''xyz''), (''installable'', BoolV False)]"
          empty_database]
  by (simp add: col_def)

text \<open>
  C1 as stated fails on the example of the specification: the insert of the Node with
  id 1, system_id "abc" and installable = true emits \<^verbatim>\<open>node_create("abc")\<close>, not
  \<^verbatim>\<open>node_update("abc")\<close>.
\<close>

theorem node_insert_counterexample:
  "notifications empty_database ''maasserver_node''
     (Insert [(''id'', IntV 1), (''system_id'', TextV ''abc''), (''installable'', BoolV True)]) \<noteq>
     Inr [(''node_update'', Some ''abc'')]"
  using node_insert
      [of "[(''id'', IntV 1), (''system_id'', TextV ''abc''), (''installable'', BoolV True)]"
          True empty_database]
  by (simp add: col_def)




text \<open>
  C3, as amended.  For every update of a Tag row that is linked to exactly two nodes,
  exactly three notifications are emitted: one for each linked node, \<^verbatim>\<open>node_update\<close>
  with its system_id when the node is installable and \<^verbatim>\<open>device_update\<close> with its
  system_id when it is not, and one \<^verbatim>\<open>tag_update\<close> with the tag's id, from the second
  trigger on the update of the Tag table.
\<close>

theorem tag_update_notifies_linked_nodes_and_tag:
  assumes "[nt \<leftarrow> maasserver_node_tags db. col ''tag_id'' nt = col ''id'' new] = [l1, l2]"
    and "col ''id'' new \<noteq> Null"
    and "distinct (map (col ''id'') (maasserver_node db))"
    and "n1 \<in> set (maasserver_node db)" and "col ''id'' n1 = col ''node_id'' l1"
    and "n2 \<in> set (maasserver_node db)" and "col ''id'' n2 = col ''node_id'' l2"
    and "col ''node_id'' l1 \<noteq> Null" and "col ''node_id'' l2 \<noteq> Null"
  shows "notifications db ''maasserver_tag'' (Update old new) =
     Inr [owner_notification n1, owner_notification n2,
          (''tag_update'', cast_text (col ''id'' new))]"
proof -
  let ?cs = "[''system_id'', ''installable'']"
  let ?inner = "\<lambda>nt. [project ?cs n. n \<leftarrow> maasserver_node db,
      is_true (sql_and (sql_eq (col ''tag_id'' nt) (col ''id'' new))
                       (sql_eq (col ''node_id'' nt) (col ''id'' n)))]"
  have off: "?inner nt = []" if "col ''tag_id'' nt \<noteq> col ''id'' new" for nt
    using that by (simp add: is_true_sql_and is_true_sql_eq)
  have on: "?inner nt = [project ?cs n]"
    if "col ''tag_id'' nt = col ''id'' new" "n \<in> set (maasserver_node db)"
      "col ''id'' n = col ''node_id'' nt" "col ''node_id'' nt \<noteq> Null" for nt n
  proof -
    have "?inner nt = [project ?cs n. n \<leftarrow> maasserver_node db,
        is_true (sql_eq (col ''id'' n) (col ''node_id'' nt))]"
      using that(1,4) assms(2) by (auto simp: is_true_sql_and is_true_sql_eq intro!: arg_cong [where f = concat])
    then show ?thesis
      using select_node_by_id [OF assms(3) that(2,3,4)] by simp
  qed
  have "l1 \<in> set [nt \<leftarrow> maasserver_node_tags db. col ''tag_id'' nt = col ''id'' new]"
    and "l2 \<in> set [nt \<leftarrow> maasserver_node_tags db. col ''tag_id'' nt = col ''id'' new]"
    unfolding assms(1) by simp_all
  then have l: "col ''tag_id'' l1 = col ''id'' new" "col ''tag_id'' l2 = col ''id'' new"
    by simp_all
  have "concat (map ?inner (maasserver_node_tags db)) =
        concat (map ?inner [nt \<leftarrow> maasserver_node_tags db. col ''tag_id'' nt = col ''id'' new])"
    by (rule concat_map_filter) (use off in blast)
  also have "\<dots> = [project ?cs n1, project ?cs n2]"
    unfolding assms(1)
    using on [OF l(1) assms(4,5,8)] on [OF l(2) assms(6,7,9)] by simp
  finally have "snd TAG_NODES_NOTIFY old new db = [owner_notification n1, owner_notification n2]"
    by (simp add: TAG_NODES_NOTIFY_def node_or_device_notify_project)
  then show ?thesis
    by (simp add: tag_update)
qed

theorem tag_update_notifies_linked_nodes_and_tag_witness:
  "notifications two_node_database ''maasserver_tag''
     (Update [(''id'', IntV 4), (''name'', TextV ''old'')] [(''id'', IntV 4), (''name'', TextV ''new'')]) =
     Inr [(''node_update'', Some ''abc''), (''device_update'', Some ''xyz''), (''tag_update'', Some ''4'')]"
  using tag_update_notifies_linked_nodes_and_tag
      [where db = two_node_database
         and new = "[(''id'', IntV 4), (''name'', TextV ''new'')]"
         and ?l1.0 = "[(''id'', IntV 1), (''node_id'', IntV 1), (''tag_id'', IntV 4)]"
         and ?l2.0 = "[(''id'', IntV 2), (''node_id'', IntV 2), (''tag_id'', IntV 4)]"
         and ?n1.0 = "[(''id'', IntV 1), (''system_id'', TextV ''abc''), (''installable'', BoolV True)]"
         and ?n2.0 = "[(''id'', IntV 2), (''system_id'', TextV ''xyz''), (''installable'', BoolV False)]"
         and old = "[(''id'', IntV 4), (''name'', TextV ''old'')]"]
  by (simp add: two_node_database_def empty_database_def col_def owner_notification_def
      text_of_int_def digits_of_nat.simps)

text \<open>
  C3 as stated fails: the update of a tag linked to the installable node "abc" and the
  non-installable node "xyz" does not emit exactly the two node notifications.
\<close>

theorem tag_update_counterexample:
  "notifications two_node_database ''maasserver_tag''
     (Update [(''id'', IntV 4), (''name'', TextV ''old'')] [(''id'', IntV 4), (''name'', TextV ''new'')]) \<noteq>
     Inr [(''node_update'', Some ''abc''), (''device_update'', Some ''xyz'')]"
  by (simp add: tag_update TAG_NODES_NOTIFY_def)

text \<open>
  C4.  The mutation of a PartitionTable row for which no join path reaches an owning
  node still performs \<^verbatim>\<open>pg_notify('node_update', NULL)\<close>: the partition-table and
  partition procedures have no guard on the empty lookup, unlike the filesystem,
  filesystem-group and cache-set procedures (\<open>filesystem_unresolved_silent\<close>).
\<close>

theorem partitiontable_unresolved_notifies:
  "notifications empty_database ''maasserver_partitiontable''
     (Insert [(''id'', IntV 9), (''block_device_id'', IntV 5)]) = Inr [(''node_update'', None)]"
  by (simp add: partitiontable_insert PARTITIONTABLE_NODE_NOTIFY_def
      empty_database_def col_def pg_notify_def)

text \<open>
  C5, as amended.  For every delete of a Node row, whatever the tables hold when the
  trigger fires, exactly one notification is emitted; its payload is taken from the
  pre-delete row image (\<^verbatim>\<open>OLD.system_id\<close>) and its channel is \<^verbatim>\<open>node_delete\<close> when
  the deleted row is installable and \<^verbatim>\<open>device_delete\<close> when it is not.
\<close>

theorem node_delete_notifies_from_old_image:
  "(col ''installable'' old = BoolV True \<longrightarrow>
      notifications db ''maasserver_node'' (Delete old) =
        Inr [(''node_delete'', cast_text (col ''system_id'' old))])
   \<and> (col ''installable'' old = BoolV False \<longrightarrow>
      notifications db ''maasserver_node'' (Delete old) =
        Inr [(''device_delete'', cast_text (col ''system_id'' old))])"
  using node_delete [of old True db] node_delete [of old False db] by simp

theorem node_delete_notifies_from_old_image_witness:
  "notifications empty_database ''maasserver_node''
     (Delete [(''id'', IntV 1), (''system_id'', TextV ''abc''), (''installable'', BoolV True)]) =
     Inr [(''node_delete'', Some ''abc'')]
   \<and> notifications empty_database ''maasserver_node''
     (Delete [(''id'', IntV 2), (''system_id'', TextV ''xyz''), (''installable'', BoolV False)]) =
     Inr [(''device_delete'', Some ''xyz'')]"
  using node_delete_notifies_from_old_image
      [of "[(''id'', IntV 1), (''system_id'', TextV ''abc''), (''installable'', BoolV True)]"
          empty_database]
    node_delete_notifies_from_old_image
      [of "[(''id'', IntV 2), (''system_id'', TextV ''xyz''), (''installable'', BoolV False)]"
          empty_database]
  by (simp add: col_def)

text \<open>
  C5 as stated fails: the delete of the installable Node with system_id "abc" emits
  neither on \<^verbatim>\<open>node_update\<close> nor on \<^verbatim>\<open>device_update\<close> (it emits on
  \<^verbatim>\<open>node_delete\<close>).
\<close>

theorem node_delete_counterexample:
  "notifications empty_database ''maasserver_node''
     (Delete [(''id'', IntV 1), (''system_id'', TextV ''abc''), (''installable'', BoolV True)]) \<noteq>
     Inr [(''node_update'', Some ''abc'')]
   \<and> notifications empty_database ''maasserver_node''
     (Delete [(''id'', IntV 1), (''system_id'', TextV ''abc''), (''installable'', BoolV True)]) \<noteq>
     Inr [(''device_update'', Some ''abc'')]"
  using node_delete
      [of "[(''id'', IntV 1), (''system_id'', TextV ''abc''), (''installable'', BoolV True)]"
          True empty_database]
  by (simp add: col_def)

text \<open>
  C6, as amended.  Registration is idempotent: from any catalogue,
  \<^verbatim>\<open>register_all_triggers\<close> succeeds, and calling it a second time leaves the catalogue
  of the first call unchanged, so no mutation afterwards produces more notifications
  than after a single registration.  In that catalogue every registered trigger is the
  only trigger of its name on its table; a (table, operation) pair may have two triggers.
\<close>

theorem register_all_triggers_idempotent:
  "\<exists>c'. register_all_triggers c = Inr c' \<and> register_all_triggers c' = Inr c'
     \<and> (\<forall>t\<in>set (trigs_of register_all_triggers_calls).
           length [x \<leftarrow> triggers c'. tgname x = tgname t \<and> tgtable x = tgtable t] = 1)"
proof -
  obtain c' where c': "register_all_triggers c = Inr c'"
    using register_all_triggers_result [of c] by blast
  show ?thesis
    using c' register_all_triggers_again [OF c'] one_trigger_per_name [OF c'] by blast
qed

theorem register_all_triggers_idempotent_witness:
  "register_all_triggers empty_catalog = Inr installed
   \<and> register_all_triggers installed = Inr installed
   \<and> length [x \<leftarrow> triggers installed.
        tgname x = ''maasserver_partitiontable_nd_partitiontable_link_notify''
        \<and> tgtable x = ''maasserver_partitiontable''] = 1"
proof -
  let ?t = "\<lparr>tgname = ''maasserver_partitiontable_nd_partitiontable_link_notify'',
       tgtable = ''maasserver_partitiontable'', tgwhen = AFTER, tgevent = INSERT,
       tgfilter = None, tgproc = ''nd_partitiontable_link_notify''\<rparr>"
  have "?t \<in> set [t \<leftarrow> triggers installed. fires ''maasserver_partitiontable'' (Insert []) t]"
    unfolding partitiontable_insert_triggers by simp
  then have t: "?t \<in> set (trigs_of register_all_triggers_calls)"
    by (simp add: triggers_installed)
  obtain c' where c': "register_all_triggers empty_catalog = Inr c'"
    "register_all_triggers c' = Inr c'"
    "\<forall>t\<in>set (trigs_of register_all_triggers_calls).
       length [x \<leftarrow> triggers c'. tgname x = tgname t \<and> tgtable x = tgtable t] = 1"
    using register_all_triggers_idempotent [of empty_catalog] by blast
  have "c' = installed"
    using c'(1) registered by simp
  then show ?thesis
    using c' t by fastforce
qed

text \<open>
  C6 as stated fails: after two registrations in succession the pair (Tag table, update)
  has two active triggers, \<^verbatim>\<open>tag_update_notify\<close> and
  \<^verbatim>\<open>tag_update_node_device_notify\<close>.
\<close>

theorem two_triggers_on_tag_update_counterexample:
  "count_triggers_on ''maasserver_tag'' UPDATE (register_twice empty_catalog) = Inr 2"
  by (simp add: count_triggers_on_def register_twice_def registered
      register_all_triggers_again [OF registered] tag_update_count)

text \<open>
  C7.  The Node table has two triggers for each operation, one filtered on installable =
  'True' and one on installable = 'False' (on the NEW image for insert and update, on the
  OLD image for delete).  For every Node row, whose installable column holds a boolean,
  exactly one of the two fires: the node trigger when it is true, the device trigger when
  it is false; never none and never both.
\<close>

theorem node_filters_exclusive_exhaustive:
  assumes "col ''installable'' r = BoolV b"
  shows "firing_triggers ''maasserver_node'' (Insert r) =
           Inr [''maasserver_node_'' @ (if b then ''node_create_notify'' else ''device_create_notify'')]
       \<and> firing_triggers ''maasserver_node'' (Update old r) =
           Inr [''maasserver_node_'' @ (if b then ''node_update_notify'' else ''device_update_notify'')]
       \<and> firing_triggers ''maasserver_node'' (Delete r) =
           Inr [''maasserver_node_'' @ (if b then ''node_delete_notify'' else ''device_delete_notify'')]"
  by (simp add: firing_installed node_triggers [OF assms])

theorem node_filters_exclusive_exhaustive_witness:
  "firing_triggers ''maasserver_node'' (Insert [(''system_id'', TextV ''abc''), (''installable'', BoolV False)]) =
     Inr [''maasserver_node_device_create_notify'']
   \<and> firing_triggers ''maasserver_node''
       (Update [(''system_id'', TextV ''abc''), (''installable'', BoolV True)]
               [(''system_id'', TextV ''abc''), (''installable'', BoolV False)]) =
     Inr [''maasserver_node_device_update_notify'']
   \<and> firing_triggers ''maasserver_node'' (Delete [(''system_id'', TextV ''abc''), (''installable'', BoolV False)]) =
     Inr [''maasserver_node_device_delete_notify'']"
proof -
  have h: "col ''installable'' [(''system_id'', TextV ''abc''), (''installable'', BoolV False)] = BoolV False"
    by (simp add: col_def)
  show ?thesis
    using node_filters_exclusive_exhaustive
      [OF h, of "[(''system_id'', TextV ''abc''), (''installable'', BoolV True)]"]
    by simp
qed

text \<open>
  C8.  For every insert or delete of an SSHKey or SSLKey row, exactly one notification is
  emitted, on \<^verbatim>\<open>user_update\<close>, with the text of the row's user_id as payload (the NEW
  image on insert, the OLD image on delete); none is emitted on a node channel.
\<close>

theorem key_mutations_notify_user:
  "notifications db ''maasserver_sshkey'' (Insert new) =
     Inr [(''user_update'', cast_text (col ''user_id'' new))]
   \<and> notifications db ''maasserver_sshkey'' (Delete old) =
     Inr [(''user_update'', cast_text (col ''user_id'' old))]
   \<and> notifications db ''maasserver_sslkey'' (Insert new) =
     Inr [(''user_update'', cast_text (col ''user_id'' new))]
   \<and> notifications db ''maasserver_sslkey'' (Delete old) =
     Inr [(''user_update'', cast_text (col ''user_id'' old))]"
  by (simp add: notifications_installed fire_def key_triggers key_procedures
      render_notification_procedure_def pg_notify_def)

theorem key_mutations_notify_user_witness:
  "notifications empty_database ''maasserver_sshkey'' (Insert [(''id'', IntV 3), (''user_id'', IntV 7)]) =
     Inr [(''user_update'', Some ''7'')]
   \<and> notifications empty_database ''maasserver_sslkey'' (Delete [(''id'', IntV 3), (''user_id'', IntV 7)]) =
     Inr [(''user_update'', Some ''7'')]"
  using key_mutations_notify_user
      [of empty_database "[(''id'', IntV 3), (''user_id'', IntV 7)]"
          "[(''id'', IntV 3), (''user_id'', IntV 7)]"]
  by (simp add: col_def text_of_7)

text \<open>
  C9.  \<^verbatim>\<open>register_all_views\<close> installs every view named in \<^verbatim>\<open>_ALL_VIEWS\<close>, and
  \<^verbatim>\<open>drop_all_views\<close> after it leaves none of them; the other views of the catalogue
  are untouched, and \<^verbatim>\<open>drop_all_views\<close> leaves a catalogue without these views as it
  is (\<^verbatim>\<open>DROP VIEW IF EXISTS\<close>).
\<close>

theorem drop_all_views_removes_registered:
  "(\<forall>n\<in>set (map fst ALL_VIEWS).
      register_all_views vs n \<noteq> None \<and> drop_all_views (register_all_views vs) n = None)
   \<and> (\<forall>n. n \<notin> set (map fst ALL_VIEWS) \<longrightarrow> drop_all_views (register_all_views vs) n = vs n)
   \<and> ((\<forall>n\<in>set (map fst ALL_VIEWS). vs n = None) \<longrightarrow> drop_all_views vs = vs)"
proof (intro conjI ballI allI impI)
  fix n assume "n \<in> set (map fst ALL_VIEWS)"
  then show "register_all_views vs n \<noteq> None"
    by (rule registered_view_exists)
next
  fix n assume "n \<in> set (map fst ALL_VIEWS)"
  then show "drop_all_views (register_all_views vs) n = None"
    by (simp add: drop_all_views_def foldl_drop_view)
next
  fix n assume "n \<notin> set (map fst ALL_VIEWS)"
  then show "drop_all_views (register_all_views vs) n = vs n"
    by (simp add: drop_all_views_def foldl_drop_view unregistered_view_kept)
next
  assume "\<forall>n\<in>set (map fst ALL_VIEWS). vs n = None"
  then show "drop_all_views vs = vs"
    by (auto simp: drop_all_views_def foldl_drop_view fun_eq_iff)
qed

theorem drop_all_views_removes_registered_witness:
  "register_all_views Map.empty ''maasserver_discovery'' \<noteq> None
   \<and> drop_all_views (register_all_views Map.empty) ''maasserver_discovery'' = None
   \<and> drop_all_views (register_all_views Map.empty) ''other_view'' = None
   \<and> drop_all_views Map.empty = Map.empty"
proof -
  have "''maasserver_discovery'' \<in> set (map fst ALL_VIEWS)"
    and "''other_view'' \<notin> set (map fst ALL_VIEWS)"
    by (simp_all add: ALL_VIEWS_def)
  then show ?thesis
    using drop_all_views_removes_registered [of Map.empty] by auto
qed

text \<open>
  C10.  For every update of a MACAddress row whose old and new node_id are those of rows
  of the Node table (ids unique): if \<^verbatim>\<open>OLD.node_id\<close> differs from \<^verbatim>\<open>NEW.node_id\<close>,
  one notification is emitted for the old owning node and then one for the new owning
  node, each on \<^verbatim>\<open>node_update\<close> or \<^verbatim>\<open>device_update\<close> according to that node's
  installable flag; if the node_id is unchanged, exactly one notification is emitted, for
  the current owning node.
\<close>

theorem macaddress_update_notifies_old_and_new:
  assumes "distinct (map (col ''id'') (maasserver_node db))"
    and "n_old \<in> set (maasserver_node db)" and "col ''id'' n_old = col ''node_id'' old"
    and "n_new \<in> set (maasserver_node db)" and "col ''id'' n_new = col ''node_id'' new"
    and "col ''node_id'' old \<noteq> Null" and "col ''node_id'' new \<noteq> Null"
  shows "notifications db ''maasserver_macaddress'' (Update old new) =
     Inr (if col ''node_id'' old \<noteq> col ''node_id'' new
          then [owner_notification n_old, owner_notification n_new]
          else [owner_notification n_new])"
proof -
  have old: "[project [''system_id'', ''installable''] n. n \<leftarrow> maasserver_node db,
               is_true (sql_eq (col ''id'' n) (col ''node_id'' old))] =
             [project [''system_id'', ''installable''] n_old]"
    using select_node_by_id [OF assms(1,2,3,6)] .
  have new: "[project [''system_id'', ''installable''] n. n \<leftarrow> maasserver_node db,
               is_true (sql_eq (col ''id'' n) (col ''node_id'' new))] =
             [project [''system_id'', ''installable''] n_new]"
    using select_node_by_id [OF assms(1,4,5,7)] .
  have ne: "is_true (sql_ne (col ''node_id'' old) (col ''node_id'' new)) =
            (col ''node_id'' old \<noteq> col ''node_id'' new)"
    using assms(6,7) by (simp add: is_true_def sql_ne_def)
  show ?thesis
    unfolding macaddress_update MACADDRESS_UPDATE_NODE_NOTIFY_def snd_conv Let_def old new ne
    by (simp add: node_or_device_notify_project)
qed

theorem macaddress_update_notifies_old_and_new_witness:
  "notifications two_node_database ''maasserver_macaddress''
     (Update [(''id'', IntV 8), (''node_id'', IntV 1)] [(''id'', IntV 8), (''node_id'', IntV 2)]) =
     Inr [(''node_update'', Some ''abc''), (''device_update'', Some ''xyz'')]
   \<and> notifications two_node_database ''maasserver_macaddress''
     (Update [(''id'', IntV 8), (''node_id'', IntV 2)] [(''id'', IntV 8), (''node_id'', IntV 2)]) =
     Inr [(''device_update'', Some ''xyz'')]"
  using macaddress_update_notifies_old_and_new
      [of two_node_database
          "[(''id'', IntV 1), (''system_id'', TextV ''abc''), (''installable'', BoolV True)]"
          "[(''id'', IntV 8), (''node_id'', IntV 1)]"
          "[(''id'', IntV 2), (''system_id'', TextV ''xyz''), (''installable'', BoolV False)]"
          "[(''id'', IntV 8), (''node_id'', IntV 2)]"]
    macaddress_update_notifies_old_and_new
      [of two_node_database
          "[(''id'', IntV 2), (''system_id'', TextV ''xyz''), (''installable'', BoolV False)]"
          "[(''id'', IntV 8), (''node_id'', IntV 2)]"
          "[(''id'', IntV 2), (''system_id'', TextV ''xyz''), (''installable'', BoolV False)]"
          "[(''id'', IntV 8), (''node_id'', IntV 2)]"]
  by (simp add: two_node_database_def empty_database_def col_def owner_notification_def)

end
